theory Spec2Isabelle
  imports Complex_Main
begin

section \<open>Spectral-subtraction denoiser (app.py)\<close>

text \<open>
  The embedding follows \<^verbatim>\<open>ai_denoising_process\<close>, \<^verbatim>\<open>allowed_file\<close> and
  \<^verbatim>\<open>upload_file\<close> of \<^verbatim>\<open>app.py\<close>.

  Numbers. NumPy's floating-point arrays are idealised: a finite float is a \<open>real\<close>
  (a finite complex value a \<open>complex\<close>), with exact arithmetic and no overflow. The one
  non-finite value the code itself produces is kept: NumPy's mean of an empty slice is
  \<^verbatim>\<open>nan\<close> (with a warning, not an exception), and \<^verbatim>\<open>nan\<close> propagates
  through \<^verbatim>\<open>-\<close>, \<^verbatim>\<open>*\<close> and \<^verbatim>\<open>np.maximum\<close>. In HOL \<open>0 / 0 = 0\<close>, so the
  value is modelled explicitly rather than by a division. Rounding is followed where a
  statement turns on it, on a single bin (see the float32 arithmetic below).
\<close>

datatype 'a np = Num 'a | NaN

text \<open>The spectrogram is a matrix with one row per frequency bin and one column per frame
  (\<^verbatim>\<open>stft.shape = (1 + n_fft/2, n_frames)\<close>), here the list of its rows.\<close>

type_synonym 'a matrix = "'a list list"

definition rect :: "'a matrix \<Rightarrow> nat \<Rightarrow> bool" where
  "rect M n = list_all (\<lambda>row. length row = n) M"

text \<open>\<^verbatim>\<open>M.shape[1]\<close>: the number of columns.\<close>

definition shape1 :: "'a matrix \<Rightarrow> nat" where
  "shape1 M = (case M of [] \<Rightarrow> 0 | row # _ \<Rightarrow> length row)"

subsection \<open>Magnitude and phase (line 55)\<close>

text \<open>
  \<^verbatim>\<open>librosa.magphase(D)\<close> returns \<^verbatim>\<open>np.abs(D)\<close> and the unit phase factor
  \<^verbatim>\<open>exp(1j * np.angle(D))\<close>; the angle of zero is zero, so the phase factor of a zero bin
  is \<open>1\<close>.
\<close>

definition unit_phase :: "complex \<Rightarrow> complex" where
  "unit_phase z = (if z = 0 then 1 else z / of_real (cmod z))"

definition magphase :: "complex matrix \<Rightarrow> real matrix \<times> complex matrix" where
  "magphase D = (map (map cmod) D, map (map unit_phase) D)"

subsection \<open>Noise profile (lines 60-61)\<close>

text \<open>
  \<^verbatim>\<open>int(magnitude.shape[1] * 0.1)\<close>: the literal \<^verbatim>\<open>0.1\<close> is the double
  \<open>3602879701896397 / 2^55\<close>, and \<^verbatim>\<open>int\<close> truncates. (The product is rounded to a double
  before truncation; that rounding moves it by less than the distance to the next integer
  for every frame count an array can have, so the exact product is truncated here.)
\<close>

definition float_0_1 :: real where
  "float_0_1 = 3602879701896397 / 36028797018963968"

definition noise_frame_count :: "nat \<Rightarrow> nat" where
  "noise_frame_count n_frames = nat \<lfloor>real n_frames * float_0_1\<rfloor>"

text \<open>\<^verbatim>\<open>magnitude[:, :k]\<close>\<close>

definition noise_frames :: "real matrix \<Rightarrow> real matrix" where
  "noise_frames magnitude = map (take (noise_frame_count (shape1 magnitude))) magnitude"

text \<open>\<^verbatim>\<open>np.mean\<close> of one row; of an empty row it is \<^verbatim>\<open>nan\<close>.\<close>

definition np_mean :: "real list \<Rightarrow> real np" where
  "np_mean xs = (if xs = [] then NaN else Num (sum_list xs / real (length xs)))"

text \<open>\<^verbatim>\<open>np.mean(noise_frames, axis=1, keepdims=True)\<close>: one value per row.\<close>

definition noise_magnitude_avg :: "real matrix \<Rightarrow> real np list" where
  "noise_magnitude_avg magnitude = map np_mean (noise_frames magnitude)"

subsection \<open>Subtraction and recombination (lines 65 and 68)\<close>

definition np_scale :: "real np \<Rightarrow> real \<Rightarrow> real np" where
  "np_scale a c = (case a of Num x \<Rightarrow> Num (x * c) | NaN \<Rightarrow> NaN)"

definition np_sub :: "real \<Rightarrow> real np \<Rightarrow> real np" where
  "np_sub m a = (case a of Num x \<Rightarrow> Num (m - x) | NaN \<Rightarrow> NaN)"

definition np_maximum :: "real \<Rightarrow> real np \<Rightarrow> real np" where
  "np_maximum c a = (case a of Num x \<Rightarrow> Num (max c x) | NaN \<Rightarrow> NaN)"

definition np_cmul :: "real np \<Rightarrow> complex \<Rightarrow> complex np" where
  "np_cmul a p = (case a of Num x \<Rightarrow> Num (of_real x * p) | NaN \<Rightarrow> NaN)"

text \<open>\<^verbatim>\<open>np.maximum(0, magnitude - noise_magnitude_avg * 1.5)\<close>: the column of averages is
  broadcast along each row.\<close>

definition clean_magnitude :: "real matrix \<Rightarrow> real np list \<Rightarrow> real np matrix" where
  "clean_magnitude magnitude avg =
     map (\<lambda>(row, a). map (\<lambda>m. np_maximum 0 (np_sub m (np_scale a 1.5))) row) (zip magnitude avg)"

text \<open>\<^verbatim>\<open>clean_magnitude * phase\<close>, elementwise.\<close>

definition stft_clean :: "real np matrix \<Rightarrow> complex matrix \<Rightarrow> complex np matrix" where
  "stft_clean clean phase = map (\<lambda>(crow, prow). map (\<lambda>(c, p). np_cmul c p) (zip crow prow)) (zip clean phase)"

text \<open>Steps 3 to 6 of the try block, from the spectrogram to the cleaned spectrogram.\<close>

definition spectral_subtraction :: "complex matrix \<Rightarrow> complex np matrix" where
  "spectral_subtraction stft =
     (let (magnitude, phase) = magphase stft;
          avg = noise_magnitude_avg magnitude;
          clean = clean_magnitude magnitude avg
      in stft_clean clean phase)"

subsection \<open>The float32 arithmetic of one bin\<close>

text \<open>
  Where a statement turns on rounding, lines 55, 65 and 68 are followed on one bin in the
  arrays' own arithmetic: the spectrogram is complex64 and the magnitudes float32. \<open>f32\<close>
  rounds a real to the nearest float32, ties to even (normal range: no overflow, no
  subnormals). \<^verbatim>\<open>librosa.magphase\<close> computes \<^verbatim>\<open>mag = np.abs(D)\<close> (taken as correctly
  rounded), \<^verbatim>\<open>zeros_to_ones = (mag == 0)\<close>, \<^verbatim>\<open>mag_nonzero = mag + zeros_to_ones\<close>,
  \<^verbatim>\<open>phase.real = D.real / mag_nonzero + zeros_to_ones\<close> and
  \<^verbatim>\<open>phase.imag = D.imag / mag_nonzero\<close>; line 68 multiplies the magnitude, as the complex
  number with imaginary part zero, by the phase.
\<close>

definition round_half_even :: "real \<Rightarrow> int" where
  "round_half_even x =
     (let f = \<lfloor>x\<rfloor>; d = x - of_int f
      in if d < 1 / 2 then f else if 1 / 2 < d then f + 1 else if even f then f else f + 1)"

definition f32 :: "real \<Rightarrow> real" where
  "f32 x =
     (if x = 0 then 0
      else (let e = \<lfloor>log 2 \<bar>x\<bar>\<rfloor>; u = 2 powr (of_int e - 23)
            in u * of_int (round_half_even (x / u))))"

definition magphase_f32 :: "complex \<Rightarrow> real \<times> complex" where
  "magphase_f32 z =
     (let mag = f32 (cmod z);
          zeros_to_ones = (if mag = 0 then 1 else 0);
          mag_nonzero = f32 (mag + zeros_to_ones)
      in (mag, Complex (f32 (f32 (Re z / mag_nonzero) + zeros_to_ones)) (f32 (Im z / mag_nonzero))))"

definition clean_f32 :: "real \<Rightarrow> real \<Rightarrow> real" where
  "clean_f32 mag avg = max 0 (f32 (mag - f32 (avg * 1.5)))"

definition cmul_f32 :: "real \<Rightarrow> complex \<Rightarrow> complex" where
  "cmul_f32 a p =
     Complex (f32 (f32 (a * Re p) - f32 (0 * Im p))) (f32 (f32 (a * Im p) + f32 (0 * Re p)))"

definition subtract_bin_f32 :: "complex \<Rightarrow> real \<Rightarrow> complex" where
  "subtract_bin_f32 z avg =
     (let (mag, phase) = magphase_f32 z in cmul_f32 (clean_f32 mag avg) phase)"

subsection \<open>Exceptions, files and the process state\<close>

text \<open>
  An exception is a value; \<open>exn_str\<close> is its \<^verbatim>\<open>str(e)\<close>. \<open>LibraryError\<close> stands for
  any exception raised inside librosa or soundfile, with its message, and \<open>OSError\<close>
  for the operating system's refusal to create or write a file (permission denied, no such
  directory, no space left), with the path.
\<close>

datatype exn =
    FileNotFoundError string
  | SameFileError string string
  | OSError string
  | IndexError
  | LibraryError string

fun exn_str :: "exn \<Rightarrow> string" where
  "exn_str (FileNotFoundError p) =
     ''[Errno 2] No such file or directory: '' @ [CHR 0x27] @ p @ [CHR 0x27]"
| "exn_str (SameFileError p q) =
     [CHR 0x27] @ p @ [CHR 0x27] @ '' and '' @ [CHR 0x27] @ q @ [CHR 0x27] @ '' are the same file''"
| "exn_str (OSError p) = ''[Errno 13] Permission denied: '' @ [CHR 0x27] @ p @ [CHR 0x27]"
| "exn_str IndexError = ''list index out of range''"
| "exn_str (LibraryError m) = m"

type_synonym bytes = "char list"

text \<open>
  What the functions read and change: the files (by path), the lines printed, the messages
  flashed, and how many UUIDs have been drawn. A read of a path that holds no file raises;
  a write creates or replaces the file.
\<close>

record world =
  fs :: "string \<rightharpoonup> bytes"
  stdout :: "string list"
  flashes :: "(string \<times> string) list"
  uuid_next :: nat

text \<open>
  The imported library functions and the UUID source are parameters: \<open>uuid4 E i\<close>
  is the text of the \<open>i\<close>-th UUID drawn; \<open>load_audio E content sr\<close> is what
  \<^verbatim>\<open>librosa.load\<close> decodes from a file's content at the target rate \<open>sr\<close> (mono samples,
  the returned rate being \<open>sr\<close>); \<open>stft E y n_fft hop\<close> and \<open>istft E S hop\<close> are
  \<^verbatim>\<open>librosa.stft\<close> and \<^verbatim>\<open>librosa.istft\<close>; \<open>sf_encode E y sr\<close> is the content
  \<^verbatim>\<open>sf.write\<close> gives the file. Each may raise; a failure of \<^verbatim>\<open>sf.write\<close>, whatever
  its cause, is a raise of \<open>sf_encode\<close>. \<open>copy_error E src dst\<close> is the error, if any,
  with which \<^verbatim>\<open>shutil.copy\<close> of an existing file \<open>src\<close> to \<open>dst\<close> is refused:
  \<open>SameFileError\<close> when the two paths name the same file under different spellings,
  an \<open>OSError\<close> when \<open>dst\<close> cannot be created or written.
\<close>

record env =
  uuid4 :: "nat \<Rightarrow> string"
  load_audio :: "bytes \<Rightarrow> nat \<Rightarrow> exn + real list"
  stft :: "real list \<Rightarrow> nat \<Rightarrow> nat \<Rightarrow> exn + complex matrix"
  istft :: "complex np matrix \<Rightarrow> nat \<Rightarrow> exn + real np list"
  sf_encode :: "real np list \<Rightarrow> nat \<Rightarrow> exn + bytes"
  copy_error :: "string \<Rightarrow> string \<Rightarrow> exn option"

definition UPLOAD_FOLDER :: string where
  "UPLOAD_FOLDER = ''uploads''"


definition N_FFT :: nat where
  "N_FFT = 1024"

definition HOP_LENGTH :: nat where
  "HOP_LENGTH = 256"

definition print_line :: "string \<Rightarrow> world \<Rightarrow> world" where
  "print_line s w = w\<lparr>stdout := stdout w @ [s]\<rparr>"

definition flash :: "string \<Rightarrow> string \<Rightarrow> world \<Rightarrow> world" where
  "flash message category w = w\<lparr>flashes := flashes w @ [(message, category)]\<rparr>"

definition draw_uuid :: "env \<Rightarrow> world \<Rightarrow> string \<times> world" where
  "draw_uuid E w = (uuid4 E (uuid_next w), w\<lparr>uuid_next := Suc (uuid_next w)\<rparr>)"

subsection \<open>Strings and paths\<close>

text \<open>\<^verbatim>\<open>s.rfind(c)\<close>: the index of the last occurrence, or \<open>-1\<close>.\<close>

definition rfind :: "char \<Rightarrow> string \<Rightarrow> int" where
  "rfind c s =
     (if c \<in> set s then int (length s) - 1 - int (length (takeWhile (\<lambda>x. x \<noteq> c) (rev s)))
      else - 1)"

text \<open>\<^verbatim>\<open>os.path.basename\<close> (POSIX): what follows the last slash.\<close>

definition basename :: "string \<Rightarrow> string" where
  "basename p = drop (nat (rfind (CHR ''/'') p + 1)) p"

text \<open>
  \<^verbatim>\<open>os.path.splitext\<close> (POSIX): split at the last dot of the last component, unless that
  component has only dots before it.
\<close>

definition splitext :: "string \<Rightarrow> string \<times> string" where
  "splitext p =
     (let sepIndex = rfind (CHR ''/'') p;
          dotIndex = rfind (CHR ''.'') p
      in if dotIndex > sepIndex
            \<and> list_ex (\<lambda>c. c \<noteq> CHR ''.'')
                 (take (nat (dotIndex - (sepIndex + 1))) (drop (nat (sepIndex + 1)) p))
         then (take (nat dotIndex) p, drop (nat dotIndex) p)
         else (p, []))"

text \<open>\<^verbatim>\<open>os.path.join(a, b)\<close> (POSIX), for two components.\<close>

definition path_join :: "string \<Rightarrow> string \<Rightarrow> string" where
  "path_join a b =
     (if b \<noteq> [] \<and> hd b = CHR ''/'' then b
      else if a = [] \<or> last a = CHR ''/'' then a @ b
      else a @ ''/'' @ b)"





subsection \<open>File operations\<close>

text \<open>\<^verbatim>\<open>librosa.load(path, sr=sr)\<close> returns the samples and the rate asked for.\<close>

definition librosa_load :: "env \<Rightarrow> world \<Rightarrow> string \<Rightarrow> nat \<Rightarrow> exn + (real list \<times> nat)" where
  "librosa_load E w path sr =
     (case fs w path of
        None \<Rightarrow> Inl (FileNotFoundError path)
      | Some content \<Rightarrow>
          (case load_audio E content sr of Inl e \<Rightarrow> Inl e | Inr y \<Rightarrow> Inr (y, sr)))"

definition sf_write :: "env \<Rightarrow> string \<Rightarrow> real np list \<Rightarrow> nat \<Rightarrow> world \<Rightarrow> exn + world" where
  "sf_write E path y sr w =
     (case sf_encode E y sr of
        Inl e \<Rightarrow> Inl e
      | Inr content \<Rightarrow> Inr (w\<lparr>fs := (fs w)(path \<mapsto> content)\<rparr>))"

text \<open>
  \<^verbatim>\<open>shutil.copy(src, dst)\<close>: it raises when the source is missing, when source and
  destination are the same file, and when the destination cannot be written.
\<close>

definition shutil_copy :: "env \<Rightarrow> string \<Rightarrow> string \<Rightarrow> world \<Rightarrow> exn + world" where
  "shutil_copy E src dst w =
     (case fs w src of
        None \<Rightarrow> Inl (FileNotFoundError src)
      | Some content \<Rightarrow>
          if src = dst then Inl (SameFileError src dst)
          else (case copy_error E src dst of
                  Some e \<Rightarrow> Inl e
                | None \<Rightarrow> Inr (w\<lparr>fs := (fs w)(dst \<mapsto> content)\<rparr>)))"

subsection \<open>\<^verbatim>\<open>ai_denoising_process\<close>\<close>

text \<open>
  The body of the \<^verbatim>\<open>try\<close> block. A raise is \<open>Inl (e, path)\<close>, where \<open>path\<close> is the
  value \<^verbatim>\<open>denoised_filepath\<close> has at that moment: the handler reads that variable, and
  line 75 reassigns it before \<^verbatim>\<open>sf.write\<close> runs.
\<close>

definition denoise_try ::
    "env \<Rightarrow> string \<Rightarrow> string \<Rightarrow> world \<Rightarrow> ((exn \<times> string) + string) \<times> world" where
  "denoise_try E input_filepath denoised_filepath w =
     (case librosa_load E w input_filepath 16000 of
        Inl e \<Rightarrow> (Inl (e, denoised_filepath), w)
      | Inr (y, sr) \<Rightarrow>
     (case stft E y N_FFT HOP_LENGTH of
        Inl e \<Rightarrow> (Inl (e, denoised_filepath), w)
      | Inr D \<Rightarrow>
     (case istft E (spectral_subtraction D) HOP_LENGTH of
        Inl e \<Rightarrow> (Inl (e, denoised_filepath), w)
      | Inr y_clean \<Rightarrow>
     (let (u, w1) = draw_uuid E w;
          denoised_filename = ''denoised_'' @ u @ ''_clean.wav'';
          denoised_filepath = path_join UPLOAD_FOLDER denoised_filename
      in case sf_write E denoised_filepath y_clean sr w1 of
           Inl e \<Rightarrow> (Inl (e, denoised_filepath), w1)
         | Inr w2 \<Rightarrow>
             (Inr denoised_filepath,
              print_line (''--- Denoising complete. Output saved to: '' @ denoised_filepath @ '' ---'')
                w2)))))"

definition ai_denoising_process :: "env \<Rightarrow> string \<Rightarrow> world \<Rightarrow> (exn + string) \<times> world" where
  "ai_denoising_process E input_filepath w =
     (let w1 = print_line
                 (''--- Running Spectral Subtraction Denoising on: '' @ input_filepath @ '' ---'') w;
          (base, ext) = splitext (basename input_filepath);
          (u, w2) = draw_uuid E w1;
          denoised_filename = ''failed_denoise_'' @ u @ ext;
          denoised_filepath = path_join UPLOAD_FOLDER denoised_filename
      in case denoise_try E input_filepath denoised_filepath w2 of
           (Inr path, w3) \<Rightarrow> (Inr path, w3)
         | (Inl (e, denoised_filepath), w3) \<Rightarrow>
             (let w4 = print_line (''An error occurred during denoising: '' @ exn_str e) w3;
                  w5 = flash (''Processing failed: '' @ exn_str e) ''error'' w4
              in case shutil_copy E input_filepath denoised_filepath w5 of
                   Inl e' \<Rightarrow> (Inl e', w5)
                 | Inr w6 \<Rightarrow> (Inr denoised_filepath, w6)))"

subsection \<open>\<^verbatim>\<open>allowed_file\<close> and \<^verbatim>\<open>upload_file\<close>\<close>





subsection \<open>Names for the statements\<close>

text \<open>
  The two paths \<^verbatim>\<open>denoised_filepath\<close> can hold (the second UUID is drawn after the first),
  the chain of library calls as a pure function of the input file's content, the state on
  entering the \<^verbatim>\<open>try\<close> block and the state after the handler's \<^verbatim>\<open>print\<close> and
  \<^verbatim>\<open>flash\<close>.
\<close>

definition fallback_filepath :: "env \<Rightarrow> string \<Rightarrow> world \<Rightarrow> string" where
  "fallback_filepath E input_filepath w =
     path_join UPLOAD_FOLDER
       (''failed_denoise_'' @ uuid4 E (uuid_next w) @ snd (splitext (basename input_filepath)))"

definition clean_filepath :: "env \<Rightarrow> world \<Rightarrow> string" where
  "clean_filepath E w =
     path_join UPLOAD_FOLDER (''denoised_'' @ uuid4 E (Suc (uuid_next w)) @ ''_clean.wav'')"

definition denoise_samples :: "env \<Rightarrow> bytes \<Rightarrow> exn + real np list" where
  "denoise_samples E content =
     (case load_audio E content 16000 of
        Inl e \<Rightarrow> Inl e
      | Inr y \<Rightarrow>
          (case stft E y 1024 256 of
             Inl e \<Rightarrow> Inl e
           | Inr D \<Rightarrow> istft E (spectral_subtraction D) 256))"

definition denoise_bytes :: "env \<Rightarrow> bytes \<Rightarrow> exn + bytes" where
  "denoise_bytes E content =
     (case denoise_samples E content of
        Inl e \<Rightarrow> Inl e
      | Inr y_clean \<Rightarrow> sf_encode E y_clean 16000)"

definition entered :: "string \<Rightarrow> world \<Rightarrow> world" where
  "entered input_filepath w =
     (print_line (''--- Running Spectral Subtraction Denoising on: '' @ input_filepath @ '' ---'') w)
       \<lparr>uuid_next := Suc (uuid_next w)\<rparr>"

definition failed :: "exn \<Rightarrow> world \<Rightarrow> world" where
  "failed e w =
     flash (''Processing failed: '' @ exn_str e) ''error''
       (print_line (''An error occurred during denoising: '' @ exn_str e) w)"

subsection \<open>The specification's wording\<close>

text \<open>
  The noise-frame count and profile as the specification words them
  (\<open>k = max(1, ceil(noiseFraction * frameCount))\<close> with \<open>noiseFraction = 0.1\<close>), the test
  \<^verbatim>\<open>x >= 0\<close> on a float (false of \<^verbatim>\<open>nan\<close>), and the upload condition: a non-empty
  name with a dot whose final extension, lowercased, is one of the four.
\<close>

definition spec_noise_frame_count :: "nat \<Rightarrow> nat" where
  "spec_noise_frame_count n_frames = max 1 (nat \<lceil>(1 / 10) * real n_frames\<rceil>)"

definition spec_noise_profile :: "complex matrix \<Rightarrow> real list" where
  "spec_noise_profile D =
     (let k = spec_noise_frame_count (shape1 D)
      in map (\<lambda>row. sum_list (map cmod (take k row)) / real k) D)"

definition np_nonneg :: "real np \<Rightarrow> bool" where
  "np_nonneg a = (case a of Num x \<Rightarrow> 0 \<le> x | NaN \<Rightarrow> False)"



subsection \<open>Concrete spectrograms\<close>

text \<open>All have the 513 rows of a 1024-point transform.\<close>

definition frames15 :: "complex matrix" where
  "frames15 = replicate 513 (2 # 4 # replicate 13 0)"

definition frames1 :: "complex matrix" where
  "frames1 = replicate 513 [1]"

definition frames8 :: "complex matrix" where
  "frames8 = replicate 513 (replicate 8 \<i>)"

definition frames10 :: "complex matrix" where
  "frames10 = replicate 513 (replicate 10 \<i>)"

definition frames_mixed :: "complex matrix" where
  "frames_mixed = replicate 513 (1 # replicate 9 (2 * \<i>))"

definition frames_quiet :: "complex matrix" where
  "frames_quiet = replicate 513 (0 # replicate 9 (2 * \<i>))"

subsection \<open>A stand-in library\<close>

text \<open>
  For the concrete runs below. It has the shapes librosa documents for a centred transform
  (\<open>1 + n_fft/2\<close> rows and \<open>1 + len/hop\<close> frames; an inverse of \<open>hop * (frames - 1)\<close>
  samples when no length is given) and two bytes per sample as 16-bit PCM has; the values
  are placeholders. Only a file that starts with the byte 1 decodes.
\<close>

definition demo_uuid :: "nat \<Rightarrow> string" where
  "demo_uuid i = ''id'' @ replicate i (CHR ''+'')"

definition demo_load :: "bytes \<Rightarrow> nat \<Rightarrow> exn + real list" where
  "demo_load content sr =
     (if content = [] \<or> hd content \<noteq> CHR 0x01 then Inl (LibraryError ''unknown format'')
      else Inr (map (\<lambda>c. 0) content))"

definition demo_stft :: "real list \<Rightarrow> nat \<Rightarrow> nat \<Rightarrow> exn + complex matrix" where
  "demo_stft y n_fft hop = Inr (replicate (1 + n_fft div 2) (replicate (1 + length y div hop) 1))"

definition demo_istft :: "complex np matrix \<Rightarrow> nat \<Rightarrow> exn + real np list" where
  "demo_istft S hop = Inr (replicate (hop * (shape1 S - 1)) (Num 0))"

definition demo_encode :: "real np list \<Rightarrow> nat \<Rightarrow> exn + bytes" where
  "demo_encode y sr = Inr (replicate (2 * length y) (CHR 0x00))"

definition demo_env :: env where
  "demo_env = \<lparr>uuid4 = demo_uuid, load_audio = demo_load, stft = demo_stft,
                istft = demo_istft, sf_encode = demo_encode, copy_error = (\<lambda>src dst. None)\<rparr>"

definition demo_world :: "bytes \<Rightarrow> world" where
  "demo_world content =
     \<lparr>fs = [''uploads/in.wav'' \<mapsto> content], stdout = [], flashes = [], uuid_next = 0\<rparr>"

definition empty_world :: world where
  "empty_world = \<lparr>fs = Map.empty, stdout = [], flashes = [], uuid_next = 0\<rparr>"

definition clip3000 :: bytes where
  "clip3000 = replicate 3000 (CHR 0x01)"

definition clip2560 :: bytes where
  "clip2560 = replicate 2560 (CHR 0x01)"

section \<open>Basic facts about the stages\<close>

lemma float_0_1_eq: "float_0_1 = 1 / 10 + 1 / (5 * 2 ^ 55)"
  by (simp add: float_0_1_def)

lemma noise_frame_count_div10:
  assumes "n < 2 ^ 54"
  shows "noise_frame_count n = n div 10"
proof -
  have n: "real n < 2 ^ 54" using assms
    by (metis of_nat_less_iff of_nat_numeral of_nat_power)
  have split: "real n = 10 * real (n div 10) + real (n mod 10)"
    by (metis mult.commute of_nat_add of_nat_mult of_nat_numeral div_mult_mod_eq mult.commute)
  have r: "real (n mod 10) \<le> 9"
  proof -
    have "n mod 10 \<le> 9" by simp
    then show ?thesis by (metis of_nat_le_iff of_nat_numeral)
  qed
  have lo: "real (n div 10) \<le> real n * float_0_1"
    using split by (simp add: float_0_1_eq algebra_simps)
  have hi: "real n * float_0_1 < real (n div 10) + 1"
    using split r n by (simp add: float_0_1_eq algebra_simps)
  have "\<lfloor>real n * float_0_1\<rfloor> = int (n div 10)"
    using lo hi by (simp add: floor_unique)
  then show ?thesis by (simp add: noise_frame_count_def)
qed

lemma rect_nth: "rect M n \<Longrightarrow> f < length M \<Longrightarrow> length (M ! f) = n"
  by (simp add: rect_def list_all_length)

lemma rect_shape1: "rect M n \<Longrightarrow> M \<noteq> [] \<Longrightarrow> shape1 M = n"
  by (cases M) (simp_all add: rect_def shape1_def)

lemma shape1_map: "shape1 (map (map g) M) = shape1 M"
  by (cases M) (simp_all add: shape1_def)

lemma length_noise_magnitude_avg: "length (noise_magnitude_avg magnitude) = length magnitude"
  by (simp add: noise_magnitude_avg_def noise_frames_def)

lemma length_clean_magnitude:
  "length avg = length magnitude \<Longrightarrow> length (clean_magnitude magnitude avg) = length magnitude"
  by (simp add: clean_magnitude_def)

lemma clean_magnitude_nth:
  assumes "length avg = length magnitude" "f < length magnitude" "t < length (magnitude ! f)"
  shows "clean_magnitude magnitude avg ! f ! t
           = np_maximum 0 (np_sub (magnitude ! f ! t) (np_scale (avg ! f) 1.5))"
  using assms by (simp add: clean_magnitude_def)

lemma length_clean_magnitude_row:
  assumes "length avg = length magnitude" "f < length magnitude"
  shows "length (clean_magnitude magnitude avg ! f) = length (magnitude ! f)"
  using assms by (simp add: clean_magnitude_def)

lemma stft_clean_nth:
  assumes "length clean = length phase" "f < length phase"
    "length (clean ! f) = length (phase ! f)" "t < length (phase ! f)"
  shows "stft_clean clean phase ! f ! t = np_cmul (clean ! f ! t) (phase ! f ! t)"
  using assms by (simp add: stft_clean_def)

lemma spectral_subtraction_nth:
  assumes "rect D n" "f < length D" "t < n"
  shows "spectral_subtraction D ! f ! t
           = np_cmul (clean_magnitude (fst (magphase D)) (noise_magnitude_avg (fst (magphase D))) ! f ! t)
               (unit_phase (D ! f ! t))"
proof -
  have len: "length (D ! f) = n" using assms by (simp add: rect_nth)
  show ?thesis
    using assms len
    by (simp add: spectral_subtraction_def magphase_def stft_clean_nth
        length_clean_magnitude length_noise_magnitude_avg length_clean_magnitude_row)
qed

lemma length_spectral_subtraction: "length (spectral_subtraction D) = length D"
  by (simp add: spectral_subtraction_def magphase_def stft_clean_def clean_magnitude_def
      length_noise_magnitude_avg)

lemma length_spectral_subtraction_row:
  "f < length D \<Longrightarrow> length (spectral_subtraction D ! f) = length (D ! f)"
  by (simp add: spectral_subtraction_def magphase_def stft_clean_def clean_magnitude_def
      length_noise_magnitude_avg)

lemma of_real_cmod_unit_phase: "of_real (cmod z) * unit_phase z = z"
  by (simp add: unit_phase_def)

lemma cmod_unit_phase: "cmod (unit_phase z) = 1"
  by (simp add: unit_phase_def norm_divide)

lemma unit_phase_scale: "0 < c \<Longrightarrow> unit_phase (of_real c * unit_phase z) = unit_phase z"
  by (simp add: unit_phase_def norm_mult norm_divide)

lemma noise_magnitude_avg_nth:
  assumes "rect D n" "f < length D"
  shows "noise_magnitude_avg (fst (magphase D)) ! f
           = np_mean (map cmod (take (noise_frame_count n) (D ! f)))"
proof -
  have "D \<noteq> []" using assms by auto
  then have "shape1 D = n" using assms by (simp add: rect_shape1)
  then show ?thesis
    using assms by (simp add: noise_magnitude_avg_def noise_frames_def magphase_def shape1_map take_map)
qed

lemma noise_frame_count_10: "noise_frame_count 10 = 1"
  by (simp add: noise_frame_count_def float_0_1_def)

lemma shape1_replicate: "0 < m \<Longrightarrow> shape1 (replicate m row) = length row"
  by (cases m) (simp_all add: shape1_def)

lemma shape1_spectral_subtraction: "shape1 (spectral_subtraction D) = shape1 D"
proof (cases D)
  case Nil
  then show ?thesis
    by (simp add: spectral_subtraction_def magphase_def stft_clean_def clean_magnitude_def
        shape1_def)
next
  case (Cons row D')
  then have "0 < length D" by simp
  then have "length (spectral_subtraction D ! 0) = length (D ! 0)"
    by (rule length_spectral_subtraction_row)
  moreover have "spectral_subtraction D \<noteq> []"
    using length_spectral_subtraction [of D] Cons by auto
  ultimately show ?thesis
    using Cons by (cases "spectral_subtraction D") (simp_all add: shape1_def)
qed

lemma frames15_rect: "rect frames15 15"
  by (simp add: frames15_def rect_def list_all_length)

lemma frames15_shape1: "shape1 frames15 = 15"
proof -
  have "frames15 \<noteq> []" by (simp add: frames15_def)
  then show ?thesis using frames15_rect by (rule rect_shape1 [rotated])
qed

lemma frames15_row: "frames15 ! 0 = 2 # 4 # replicate 13 0"
  by (simp add: frames15_def)

lemma frames1_rect: "rect frames1 1"
  by (simp add: frames1_def rect_def list_all_length)

lemma frames8_rect: "rect frames8 8"
  by (simp add: frames8_def rect_def list_all_length)

lemma frames10_rect: "rect frames10 10"
  by (simp add: frames10_def rect_def list_all_length)

lemma frames10_avg: "noise_magnitude_avg (fst (magphase frames10)) ! 0 = Num 1"
proof -
  have k: "noise_frame_count 10 = 1" by (simp add: noise_frame_count_def float_0_1_def)
  have "(0::nat) < length frames10" by (simp add: frames10_def)
  from noise_magnitude_avg_nth [OF frames10_rect this]
  show ?thesis by (simp add: k frames10_def np_mean_def)
qed

lemma frames10_clean:
  "clean_magnitude (fst (magphase frames10)) (noise_magnitude_avg (fst (magphase frames10))) ! 0 ! 0 = Num 0"
proof -
  have "clean_magnitude (fst (magphase frames10)) (noise_magnitude_avg (fst (magphase frames10))) ! 0 ! 0
          = np_maximum 0 (np_sub (fst (magphase frames10) ! 0 ! 0)
              (np_scale (noise_magnitude_avg (fst (magphase frames10)) ! 0) 1.5))"
    by (rule clean_magnitude_nth) (simp_all add: length_noise_magnitude_avg magphase_def frames10_def)
  moreover have "fst (magphase frames10) ! 0 ! 0 = 1"
    by (simp add: magphase_def frames10_def)
  ultimately show ?thesis
    by (simp add: frames10_avg np_maximum_def np_sub_def np_scale_def)
qed

lemma frames_mixed_rect: "rect frames_mixed 10"
  by (simp add: frames_mixed_def rect_def list_all_length)

lemma frames_mixed_avg: "noise_magnitude_avg (fst (magphase frames_mixed)) ! 0 = Num 1"
proof -
  have "(0::nat) < length frames_mixed" by (simp add: frames_mixed_def)
  from noise_magnitude_avg_nth [OF frames_mixed_rect this]
  show ?thesis by (simp add: noise_frame_count_10 frames_mixed_def np_mean_def)
qed

lemma frames_mixed_entry: "frames_mixed ! 0 ! 2 = 2 * \<i>"
  by (simp add: frames_mixed_def)

lemma unit_phase_2i: "unit_phase (2 * \<i>) = \<i>"
  by (simp add: unit_phase_def norm_mult)

lemma frames_mixed_clean:
  "clean_magnitude (fst (magphase frames_mixed)) (noise_magnitude_avg (fst (magphase frames_mixed))) ! 0 ! 2
     = Num (1 / 2)"
proof -
  have "clean_magnitude (fst (magphase frames_mixed)) (noise_magnitude_avg (fst (magphase frames_mixed))) ! 0 ! 2
          = np_maximum 0 (np_sub (fst (magphase frames_mixed) ! 0 ! 2)
              (np_scale (noise_magnitude_avg (fst (magphase frames_mixed)) ! 0) 1.5))"
    by (rule clean_magnitude_nth)
      (simp_all add: length_noise_magnitude_avg magphase_def frames_mixed_def)
  moreover have "fst (magphase frames_mixed) ! 0 ! 2 = 2"
    by (simp add: magphase_def frames_mixed_def norm_mult)
  ultimately show ?thesis
    by (simp add: frames_mixed_avg np_maximum_def np_sub_def np_scale_def)
qed

lemma frames_quiet_avg:
  "noise_magnitude_avg (fst (magphase frames_quiet)) = replicate (length frames_quiet) (Num 0)"
  by (simp add: noise_magnitude_avg_def noise_frames_def magphase_def frames_quiet_def
      shape1_replicate noise_frame_count_10 np_mean_def)

lemma clean_row_zero:
  "map (\<lambda>(c, p). np_cmul c p)
     (zip (map (\<lambda>m. np_maximum 0 (np_sub m (np_scale (Num 0) 1.5))) (map cmod row))
          (map unit_phase row)) = map Num row"
  by (induction row)
    (simp_all add: np_maximum_def np_sub_def np_scale_def np_cmul_def of_real_cmod_unit_phase)

lemma zero_noise_general:
  "length avg = length D \<Longrightarrow> list_all (\<lambda>a. a = Num 0) avg \<Longrightarrow>
   stft_clean (clean_magnitude (fst (magphase D)) avg) (snd (magphase D)) = map (map Num) D"
proof (induction D arbitrary: avg)
  case Nil
  then show ?case by (simp add: stft_clean_def clean_magnitude_def magphase_def)
next
  case (Cons row D)
  then obtain a avg' where avg: "avg = a # avg'" by (cases avg) auto
  with Cons.prems have a: "a = Num 0" and rest: "length avg' = length D" "list_all (\<lambda>a. a = Num 0) avg'"
    by simp_all
  have "stft_clean (clean_magnitude (fst (magphase D)) avg') (snd (magphase D)) = map (map Num) D"
    using Cons.IH [OF rest] .
  then show ?case
    using clean_row_zero [of row]
    by (simp add: avg a stft_clean_def clean_magnitude_def magphase_def)
qed

lemma short_noise_nan:
  assumes "rect D n" "n < 10" "f < length D"
  shows "noise_magnitude_avg (fst (magphase D)) ! f = NaN"
proof -
  have "n < 2 ^ 54" using assms(2) by simp
  then have "noise_frame_count n = 0" using assms(2) by (simp add: noise_frame_count_div10)
  then show ?thesis
    using noise_magnitude_avg_nth [OF assms(1) assms(3)] by (simp add: np_mean_def)
qed

lemma short_clean_nan:
  assumes "rect D n" "n < 10" "f < length D" "t < n"
  shows "clean_magnitude (fst (magphase D)) (noise_magnitude_avg (fst (magphase D))) ! f ! t = NaN"
proof -
  have len: "length (D ! f) = n" using assms by (simp add: rect_nth)
  have "clean_magnitude (fst (magphase D)) (noise_magnitude_avg (fst (magphase D))) ! f ! t
          = np_maximum 0 (np_sub (cmod (D ! f ! t))
              (np_scale (noise_magnitude_avg (fst (magphase D)) ! f) 1.5))"
    using assms len by (simp add: clean_magnitude_nth length_noise_magnitude_avg magphase_def)
  then show ?thesis
    using short_noise_nan [OF assms(1,2,3)]
    by (simp add: np_maximum_def np_sub_def np_scale_def)
qed

lemma short_spectrum_nan:
  assumes "rect D n" "n < 10" "f < length D" "t < n"
  shows "spectral_subtraction D ! f ! t = NaN"
  using spectral_subtraction_nth [OF assms(1,3,4)] short_clean_nan [OF assms]
  by (simp add: np_cmul_def)

lemma clean_magnitude_nonneg:
  assumes "rect D n" "f < length D" "t < n"
    "noise_magnitude_avg (fst (magphase D)) ! f \<noteq> NaN"
  shows "np_nonneg (clean_magnitude (fst (magphase D)) (noise_magnitude_avg (fst (magphase D))) ! f ! t)"
proof -
  have len: "length (D ! f) = n" using assms by (simp add: rect_nth)
  have "clean_magnitude (fst (magphase D)) (noise_magnitude_avg (fst (magphase D))) ! f ! t
          = np_maximum 0 (np_sub (cmod (D ! f ! t))
              (np_scale (noise_magnitude_avg (fst (magphase D)) ! f) 1.5))"
    using assms len by (simp add: clean_magnitude_nth length_noise_magnitude_avg magphase_def)
  then show ?thesis
    using assms(4)
    by (cases "noise_magnitude_avg (fst (magphase D)) ! f")
      (simp_all add: np_maximum_def np_sub_def np_scale_def np_nonneg_def)
qed

lemma clean_magnitude_zero_noise:
  "clean_magnitude (map (map cmod) D) (replicate (length D) (Num 0))
     = map (map Num) (map (map cmod) D)"
proof (induction D)
  case Nil
  then show ?case by (simp add: clean_magnitude_def)
next
  case (Cons row D)
  have "map (\<lambda>m. np_maximum 0 (np_sub m (np_scale (Num 0) 1.5))) (map cmod row)
          = map Num (map cmod row)"
    by (simp add: np_maximum_def np_sub_def np_scale_def)
  then show ?case using Cons by (simp add: clean_magnitude_def)
qed

lemma round_half_even_eq:
  assumes "of_int m - 1 / 2 < x" "x < of_int m + 1 / 2"
  shows "round_half_even x = m"
proof (cases "of_int m \<le> x")
  case True
  then have "\<lfloor>x\<rfloor> = m" using assms by (simp add: floor_unique)
  then show ?thesis using assms by (simp add: round_half_even_def Let_def)
next
  case False
  then have "\<lfloor>x\<rfloor> = m - 1" using assms by (simp add: floor_unique)
  then show ?thesis using assms False by (simp add: round_half_even_def Let_def)
qed

lemma floor_log2:
  assumes "2 powr of_int e \<le> x" "x < 2 powr (of_int e + 1)"
  shows "\<lfloor>log 2 x\<rfloor> = e"
proof -
  have "(0::real) < 2 powr of_int e" by simp
  then have pos: "0 < x" using assms(1) by linarith
  have "of_int e \<le> log 2 x" using assms(1) pos by (simp add: le_log_iff)
  moreover have "log 2 x < of_int e + 1" using assms(2) pos by (simp add: log_less_iff)
  ultimately show ?thesis by (simp add: floor_unique)
qed

lemma f32_eval:
  assumes "2 powr of_int e \<le> x" "x < 2 powr (of_int e + 1)"
    and "of_int m - 1 / 2 < x / 2 powr (of_int e - 23)"
    and "x / 2 powr (of_int e - 23) < of_int m + 1 / 2"
  shows "f32 x = 2 powr (of_int e - 23) * of_int m"
proof -
  have "(0::real) < 2 powr of_int e" by simp
  then have pos: "0 < x" using assms(1) by linarith
  have "\<lfloor>log 2 \<bar>x\<bar>\<rfloor> = e" using floor_log2 [OF assms(1,2)] pos by simp
  then show ?thesis
    using pos round_half_even_eq [OF assms(3,4)] by (simp add: f32_def Let_def)
qed

lemma f32_zero: "f32 0 = 0"
  by (simp add: f32_def)

lemma sqrt2_lower: "23726565 / 16777216 < sqrt 2"
  by (rule real_less_rsqrt) (simp add: power2_eq_square)

lemma sqrt2_upper: "sqrt 2 < 23726567 / 16777216"
  by (rule real_less_lsqrt) (simp_all add: power2_eq_square)

lemma f32_sqrt2: "f32 (sqrt 2) = 11863283 / 8388608"
proof -
  have "f32 (sqrt 2) = 2 powr (of_int 0 - 23) * of_int 11863283"
  proof (rule f32_eval)
    show "2 powr of_int 0 \<le> sqrt 2" by simp
    show "sqrt 2 < 2 powr (of_int 0 + 1)" using sqrt2_upper by simp
    show "of_int 11863283 - 1 / 2 < sqrt 2 / 2 powr (of_int 0 - 23)"
      using sqrt2_lower by (simp add: powr_neg_numeral field_simps)
    show "sqrt 2 / 2 powr (of_int 0 - 23) < of_int 11863283 + 1 / 2"
      using sqrt2_upper by (simp add: powr_neg_numeral field_simps)
  qed
  then show ?thesis by (simp add: powr_neg_numeral)
qed

lemma f32_mag: "f32 (11863283 / 8388608) = 11863283 / 8388608"
proof -
  have "f32 (11863283 / 8388608) = 2 powr (of_int 0 - 23) * of_int 11863283"
    by (rule f32_eval) (simp_all add: powr_neg_numeral)
  then show ?thesis by (simp add: powr_neg_numeral)
qed

lemma f32_quotient: "f32 (8388608 / 11863283) = 11863283 / 16777216"
proof -
  have "f32 (8388608 / 11863283) = 2 powr (of_int (- 1) - 23) * of_int 11863283"
    by (rule f32_eval) (simp_all add: powr_neg_numeral powr_minus_divide)
  then show ?thesis by (simp add: powr_neg_numeral)
qed

lemma f32_phase: "f32 (11863283 / 16777216) = 11863283 / 16777216"
proof -
  have "f32 (11863283 / 16777216) = 2 powr (of_int (- 1) - 23) * of_int 11863283"
    by (rule f32_eval) (simp_all add: powr_neg_numeral powr_minus_divide)
  then show ?thesis by (simp add: powr_neg_numeral)
qed

lemma f32_product: "f32 (140737483538089 / 140737488355328) = 16777215 / 16777216"
proof -
  have "f32 (140737483538089 / 140737488355328) = 2 powr (of_int (- 1) - 23) * of_int 16777215"
    by (rule f32_eval) (simp_all add: powr_neg_numeral powr_minus_divide)
  then show ?thesis by (simp add: powr_neg_numeral)
qed

lemma f32_result: "f32 (16777215 / 16777216) = 16777215 / 16777216"
proof -
  have "f32 (16777215 / 16777216) = 2 powr (of_int (- 1) - 23) * of_int 16777215"
    by (rule f32_eval) (simp_all add: powr_neg_numeral powr_minus_divide)
  then show ?thesis by (simp add: powr_neg_numeral)
qed

lemma magphase_f32_1_1:
  "magphase_f32 (Complex 1 1)
     = (11863283 / 8388608, Complex (11863283 / 16777216) (11863283 / 16777216))"
  by (simp add: magphase_f32_def cmod_def f32_sqrt2 f32_mag f32_quotient f32_phase Let_def)

lemma clean_f32_zero_noise: "f32 m = m \<Longrightarrow> 0 \<le> m \<Longrightarrow> clean_f32 m 0 = m"
  by (simp add: clean_f32_def f32_zero)

section \<open>Facts about the pipeline\<close>

lemma denoise_try_samples_fail:
  assumes "fs w input = Some content" "denoise_samples E content = Inl e"
  shows "denoise_try E input fb w = (Inl (e, fb), w)"
  using assms
  by (simp add: denoise_try_def librosa_load_def denoise_samples_def N_FFT_def HOP_LENGTH_def
      split: sum.split_asm)

lemma denoise_try_encode_fail:
  assumes "fs w input = Some content" "denoise_samples E content = Inr y_clean"
    "sf_encode E y_clean 16000 = Inl e"
  shows "denoise_try E input fb w
           = (Inl (e, path_join UPLOAD_FOLDER (''denoised_'' @ uuid4 E (uuid_next w) @ ''_clean.wav'')),
              w\<lparr>uuid_next := Suc (uuid_next w)\<rparr>)"
  using assms
  by (simp add: denoise_try_def librosa_load_def denoise_samples_def N_FFT_def HOP_LENGTH_def
      draw_uuid_def sf_write_def split: sum.split_asm)

lemma denoise_try_success:
  assumes "fs w input = Some content" "denoise_samples E content = Inr y_clean"
    "sf_encode E y_clean 16000 = Inr enc"
  shows "denoise_try E input fb w
           = (let p = path_join UPLOAD_FOLDER (''denoised_'' @ uuid4 E (uuid_next w) @ ''_clean.wav'')
              in (Inr p,
                  print_line (''--- Denoising complete. Output saved to: '' @ p @ '' ---'')
                    (w\<lparr>uuid_next := Suc (uuid_next w), fs := (fs w)(p \<mapsto> enc)\<rparr>)))"
  using assms
  by (simp add: denoise_try_def librosa_load_def denoise_samples_def N_FFT_def HOP_LENGTH_def
      draw_uuid_def sf_write_def split: sum.split_asm)

lemma entered_simps:
  "fs (entered input w) = fs w" "uuid_next (entered input w) = Suc (uuid_next w)"
  "flashes (entered input w) = flashes w"
  by (simp_all add: entered_def print_line_def)

lemma failed_simps:
  "fs (failed e w) = fs w" "flashes (failed e w) = flashes w @ [(''Processing failed: '' @ exn_str e, ''error'')]"
  by (simp_all add: failed_def print_line_def flash_def)

lemma ai_denoising_process_alt:
  "ai_denoising_process E input w =
     (case denoise_try E input (fallback_filepath E input w) (entered input w) of
        (Inr path, w3) \<Rightarrow> (Inr path, w3)
      | (Inl (e, p), w3) \<Rightarrow>
          (case shutil_copy E input p (failed e w3) of
             Inl e' \<Rightarrow> (Inl e', failed e w3)
           | Inr w6 \<Rightarrow> (Inr p, w6)))"
  by (simp add: ai_denoising_process_def draw_uuid_def entered_def failed_def
      fallback_filepath_def print_line_def flash_def Let_def split: prod.split sum.split)

lemma process_success:
  assumes "fs w input = Some content" "denoise_samples E content = Inr y_clean"
    "sf_encode E y_clean 16000 = Inr enc"
  shows "fst (ai_denoising_process E input w) = Inr (clean_filepath E w)"
    and "fs (snd (ai_denoising_process E input w)) = (fs w)(clean_filepath E w \<mapsto> enc)"
    and "flashes (snd (ai_denoising_process E input w)) = flashes w"
proof -
  have f: "fs (entered input w) input = Some content" using assms(1) by (simp add: entered_simps)
  note t = denoise_try_success [OF f assms(2,3), unfolded entered_simps]
  show "fst (ai_denoising_process E input w) = Inr (clean_filepath E w)"
    by (simp add: ai_denoising_process_alt t Let_def clean_filepath_def)
  show "fs (snd (ai_denoising_process E input w)) = (fs w)(clean_filepath E w \<mapsto> enc)"
    by (simp add: ai_denoising_process_alt t Let_def clean_filepath_def print_line_def)
  show "flashes (snd (ai_denoising_process E input w)) = flashes w"
    by (simp add: ai_denoising_process_alt t Let_def clean_filepath_def print_line_def entered_simps)
qed

lemma process_samples_fail:
  assumes "fs w input = Some content" "denoise_samples E content = Inl e"
    "input \<noteq> fallback_filepath E input w"
    "copy_error E input (fallback_filepath E input w) = None"
  shows "fst (ai_denoising_process E input w) = Inr (fallback_filepath E input w)"
    and "fs (snd (ai_denoising_process E input w)) = (fs w)(fallback_filepath E input w \<mapsto> content)"
    and "flashes (snd (ai_denoising_process E input w))
           = flashes w @ [(''Processing failed: '' @ exn_str e, ''error'')]"
proof -
  have f: "fs (entered input w) input = Some content" using assms(1) by (simp add: entered_simps)
  note t = denoise_try_samples_fail [OF f assms(2)]
  show "fst (ai_denoising_process E input w) = Inr (fallback_filepath E input w)"
    using assms(1,3,4)
    by (simp add: ai_denoising_process_alt t shutil_copy_def failed_simps entered_simps)
  show "fs (snd (ai_denoising_process E input w)) = (fs w)(fallback_filepath E input w \<mapsto> content)"
    using assms(1,3,4)
    by (simp add: ai_denoising_process_alt t shutil_copy_def failed_simps entered_simps)
  show "flashes (snd (ai_denoising_process E input w))
           = flashes w @ [(''Processing failed: '' @ exn_str e, ''error'')]"
    using assms(1,3,4)
    by (simp add: ai_denoising_process_alt t shutil_copy_def failed_simps entered_simps)
qed

lemma process_encode_fail:
  assumes "fs w input = Some content" "denoise_samples E content = Inr y_clean"
    "sf_encode E y_clean 16000 = Inl e" "input \<noteq> clean_filepath E w"
    "copy_error E input (clean_filepath E w) = None"
  shows "fst (ai_denoising_process E input w) = Inr (clean_filepath E w)"
    and "fs (snd (ai_denoising_process E input w)) = (fs w)(clean_filepath E w \<mapsto> content)"
    and "flashes (snd (ai_denoising_process E input w))
           = flashes w @ [(''Processing failed: '' @ exn_str e, ''error'')]"
proof -
  have f: "fs (entered input w) input = Some content" using assms(1) by (simp add: entered_simps)
  note t = denoise_try_encode_fail [OF f assms(2,3), unfolded entered_simps]
  have g: "fs (failed e ((entered input w)\<lparr>uuid_next := Suc (Suc (uuid_next w))\<rparr>)) = fs w"
       "flashes (failed e ((entered input w)\<lparr>uuid_next := Suc (Suc (uuid_next w))\<rparr>))
          = flashes w @ [(''Processing failed: '' @ exn_str e, ''error'')]"
    by (simp_all add: failed_simps entered_simps)
  show "fst (ai_denoising_process E input w) = Inr (clean_filepath E w)"
    using assms(1,4,5)
    by (simp add: ai_denoising_process_alt t shutil_copy_def g clean_filepath_def)
  show "fs (snd (ai_denoising_process E input w)) = (fs w)(clean_filepath E w \<mapsto> content)"
    using assms(1,4,5)
    by (simp add: ai_denoising_process_alt t shutil_copy_def g clean_filepath_def)
  show "flashes (snd (ai_denoising_process E input w))
           = flashes w @ [(''Processing failed: '' @ exn_str e, ''error'')]"
    using assms(1,4,5)
    by (simp add: ai_denoising_process_alt t shutil_copy_def g clean_filepath_def)
qed

lemma process_copy_refused:
  assumes "fs w input = Some content" "denoise_samples E content = Inl e"
    "input \<noteq> fallback_filepath E input w"
    "copy_error E input (fallback_filepath E input w) = Some e'"
  shows "fst (ai_denoising_process E input w) = Inl e'"
proof -
  have f: "fs (entered input w) input = Some content" using assms(1) by (simp add: entered_simps)
  note t = denoise_try_samples_fail [OF f assms(2)]
  show ?thesis
    using assms(1,3,4)
    by (simp add: ai_denoising_process_alt t shutil_copy_def failed_simps entered_simps)
qed

lemma process_missing_input:
  assumes "fs w input = None"
  shows "fst (ai_denoising_process E input w) = Inl (FileNotFoundError input)"
  using assms
  by (simp add: ai_denoising_process_alt denoise_try_def librosa_load_def shutil_copy_def
      entered_simps failed_simps)

lemma flashes_denoise_try: "flashes (snd (denoise_try E input fb w)) = flashes w"
  by (simp add: denoise_try_def draw_uuid_def sf_write_def print_line_def Let_def
      split: sum.split prod.split)

lemma denoise_try_Inr:
  assumes "denoise_try E input fb w = (Inr out, w3)"
  shows "\<exists>content y D y_clean enc.
           fs w input = Some content \<and> load_audio E content 16000 = Inr y
         \<and> stft E y N_FFT HOP_LENGTH = Inr D
         \<and> istft E (spectral_subtraction D) HOP_LENGTH = Inr y_clean
         \<and> sf_encode E y_clean 16000 = Inr enc \<and> fs w3 out = Some enc"
  using assms
  by (auto simp: denoise_try_def librosa_load_def draw_uuid_def sf_write_def print_line_def Let_def
      split: sum.split_asm prod.split_asm option.split_asm)

lemma demo_world_file: "fs (demo_world c) ''uploads/in.wav'' = Some c"
  by (simp add: demo_world_def)

lemma demo_samples_corrupt:
  "denoise_samples demo_env ''not audio'' = Inl (LibraryError ''unknown format'')"
  by (simp add: denoise_samples_def demo_env_def demo_load_def)

lemma demo_clean_filepath:
  "clean_filepath demo_env (demo_world c) = ''uploads/denoised_id+_clean.wav''"
  by (simp add: clean_filepath_def demo_env_def demo_world_def demo_uuid_def path_join_def
      UPLOAD_FOLDER_def)

lemma demo_fallback_filepath:
  "fallback_filepath demo_env ''uploads/in.wav'' (demo_world c) = ''uploads/failed_denoise_id.wav''"
  by (simp add: fallback_filepath_def demo_env_def demo_world_def demo_uuid_def path_join_def
      UPLOAD_FOLDER_def splitext_def basename_def rfind_def)

lemma demo_load_clip3000: "load_audio demo_env clip3000 16000 = Inr (replicate 3000 0)"
  by (simp add: demo_env_def demo_load_def clip3000_def)

lemma demo_stft_3000: "stft demo_env (replicate 3000 0) 1024 256 = Inr (replicate 513 (replicate 12 1))"
  by (simp add: demo_env_def demo_stft_def)

lemma demo_istft_12:
  "istft demo_env (spectral_subtraction (replicate 513 (replicate 12 1))) 256
     = Inr (replicate 2816 (Num 0))"
  by (simp add: demo_env_def demo_istft_def shape1_spectral_subtraction shape1_replicate)

lemma demo_encode_2816:
  "sf_encode demo_env (replicate 2816 (Num 0)) 16000 = Inr (replicate 5632 (CHR 0x00))"
  by (simp add: demo_env_def demo_encode_def)

lemma demo_samples_3000: "denoise_samples demo_env clip3000 = Inr (replicate 2816 (Num 0))"
  using demo_load_clip3000 demo_stft_3000 demo_istft_12 by (simp add: denoise_samples_def)

lemma demo_load_clip2560: "load_audio demo_env clip2560 16000 = Inr (replicate 2560 0)"
  by (simp add: demo_env_def demo_load_def clip2560_def)

lemma demo_stft_2560: "stft demo_env (replicate 2560 0) 1024 256 = Inr (replicate 513 (replicate 11 1))"
  by (simp add: demo_env_def demo_stft_def)

lemma demo_istft_11:
  "istft demo_env (spectral_subtraction (replicate 513 (replicate 11 1))) 256
     = Inr (replicate 2560 (Num 0))"
  by (simp add: demo_env_def demo_istft_def shape1_spectral_subtraction shape1_replicate)

lemma demo_encode_2560:
  "sf_encode demo_env (replicate 2560 (Num 0)) 16000 = Inr (replicate 5120 (CHR 0x00))"
  by (simp add: demo_env_def demo_encode_def)

lemma demo_samples_2560: "denoise_samples demo_env clip2560 = Inr (replicate 2560 (Num 0))"
  using demo_load_clip2560 demo_stft_2560 demo_istft_11 by (simp add: denoise_samples_def)




section \<open>The claims\<close>

subsection \<open>C1: the fallback\<close>

text \<open>
  Claim C1, as the code has it. When the input file exists and can be copied to the two
  paths the output may go to (neither is the input file itself, under this or another
  spelling, and both can be written), \<^verbatim>\<open>ai_denoising_process\<close> returns an output
  path and raises nothing: if decoding, the transform, the inverse transform or the encoding
  raises, the file at the returned path is a byte-identical copy of the input; otherwise it
  is the encoded result.
\<close>

theorem output_for_readable_input:
  assumes "fs w input = Some content"
    and "input \<noteq> fallback_filepath E input w" and "input \<noteq> clean_filepath E w"
    and "copy_error E input (fallback_filepath E input w) = None"
    and "copy_error E input (clean_filepath E w) = None"
  shows "\<exists>out. fst (ai_denoising_process E input w) = Inr out
             \<and> out \<in> {fallback_filepath E input w, clean_filepath E w}
             \<and> fs (snd (ai_denoising_process E input w)) out
                 = Some (case denoise_bytes E content of Inl e \<Rightarrow> content | Inr enc \<Rightarrow> enc)"
proof (cases "denoise_samples E content")
  case (Inl e)
  then have "denoise_bytes E content = Inl e" by (simp add: denoise_bytes_def)
  then show ?thesis
    using process_samples_fail(1,2) [OF assms(1) Inl assms(2,4)] by simp
next
  case (Inr y_clean)
  show ?thesis
  proof (cases "sf_encode E y_clean 16000")
    case (Inl e)
    then have "denoise_bytes E content = Inl e" using Inr by (simp add: denoise_bytes_def)
    then show ?thesis
      using process_encode_fail(1,2) [OF assms(1) Inr Inl assms(3,5)] by simp
  next
    case enc: (Inr enc)
    then have "denoise_bytes E content = Inr enc" using Inr by (simp add: denoise_bytes_def)
    then show ?thesis
      using process_success(1,2) [OF assms(1) Inr enc] by simp
  qed
qed

theorem output_for_readable_input_witness:
  "fs (demo_world ''not audio'') ''uploads/in.wav'' = Some ''not audio''
   \<and> ''uploads/in.wav'' \<noteq> fallback_filepath demo_env ''uploads/in.wav'' (demo_world ''not audio'')
   \<and> ''uploads/in.wav'' \<noteq> clean_filepath demo_env (demo_world ''not audio'')
   \<and> copy_error demo_env ''uploads/in.wav''
         (fallback_filepath demo_env ''uploads/in.wav'' (demo_world ''not audio'')) = None
   \<and> copy_error demo_env ''uploads/in.wav'' (clean_filepath demo_env (demo_world ''not audio'')) = None
   \<and> fst (ai_denoising_process demo_env ''uploads/in.wav'' (demo_world ''not audio''))
       = Inr ''uploads/failed_denoise_id.wav''
   \<and> fs (snd (ai_denoising_process demo_env ''uploads/in.wav'' (demo_world ''not audio'')))
       ''uploads/failed_denoise_id.wav'' = Some ''not audio''"
proof -
  have a: "''uploads/in.wav'' \<noteq> fallback_filepath demo_env ''uploads/in.wav'' (demo_world ''not audio'')"
    by (simp add: demo_fallback_filepath)
  have b: "''uploads/in.wav'' \<noteq> clean_filepath demo_env (demo_world ''not audio'')"
    by (simp add: demo_clean_filepath)
  have a': "copy_error demo_env ''uploads/in.wav''
              (fallback_filepath demo_env ''uploads/in.wav'' (demo_world ''not audio'')) = None"
    by (simp add: demo_env_def)
  have b': "copy_error demo_env ''uploads/in.wav'' (clean_filepath demo_env (demo_world ''not audio''))
              = None"
    by (simp add: demo_env_def)
  have c: "fst (ai_denoising_process demo_env ''uploads/in.wav'' (demo_world ''not audio''))
       = Inr ''uploads/failed_denoise_id.wav''"
    using process_samples_fail(1) [OF demo_world_file demo_samples_corrupt a a']
    by (simp add: demo_fallback_filepath)
  have d: "denoise_bytes demo_env ''not audio'' = Inl (LibraryError ''unknown format'')"
    by (simp add: denoise_bytes_def demo_samples_corrupt)
  show ?thesis
    using output_for_readable_input [OF demo_world_file a b a' b'] a b a' b' c d
    by (auto simp: demo_world_file)
qed

text \<open>
  Claim C1 as stated ("for every input resource") fails for an input that cannot be read:
  \<^verbatim>\<open>librosa.load\<close> raises, and the copy in the handler raises in turn, so the exception
  leaves the function. (\<^verbatim>\<open>upload_file\<close> catches it in its own handler.) The copy is
  not guarded against a refusal either (\<open>process_copy_refused\<close>): when the upload
  folder cannot be written, the error of the copy leaves the function as well.
\<close>

theorem missing_input_counterexample:
  "fst (ai_denoising_process demo_env ''uploads/gone.wav'' empty_world)
     = Inl (FileNotFoundError ''uploads/gone.wav'')"
  by (rule process_missing_input) (simp add: empty_world_def)

subsection \<open>C2: the subtraction formula\<close>

text \<open>
  Claim C2. For every bin \<open>f\<close> and frame \<open>t\<close>, the subtracted magnitude is
  \<open>max 0 (|D f t| - 1.5 * noise f)\<close> and the cleaned bin is that magnitude times the
  unit phase factor of the original bin (a \<^verbatim>\<open>nan\<close> noise value gives \<^verbatim>\<open>nan\<close>).
\<close>

theorem subtraction_formula:
  assumes "rect D n" "f < length D" "t < n"
  shows "clean_magnitude (fst (magphase D)) (noise_magnitude_avg (fst (magphase D))) ! f ! t
           = (case noise_magnitude_avg (fst (magphase D)) ! f of
                Num v \<Rightarrow> Num (max 0 (cmod (D ! f ! t) - 1.5 * v))
              | NaN \<Rightarrow> NaN)
       \<and> spectral_subtraction D ! f ! t
           = (case clean_magnitude (fst (magphase D)) (noise_magnitude_avg (fst (magphase D))) ! f ! t of
                Num c \<Rightarrow> Num (of_real c * unit_phase (D ! f ! t))
              | NaN \<Rightarrow> NaN)"
proof -
  have len: "length (D ! f) = n" using assms by (simp add: rect_nth)
  have "clean_magnitude (fst (magphase D)) (noise_magnitude_avg (fst (magphase D))) ! f ! t
          = np_maximum 0 (np_sub (cmod (D ! f ! t))
              (np_scale (noise_magnitude_avg (fst (magphase D)) ! f) 1.5))"
    using assms len by (simp add: clean_magnitude_nth length_noise_magnitude_avg magphase_def)
  then have a: "clean_magnitude (fst (magphase D)) (noise_magnitude_avg (fst (magphase D))) ! f ! t
           = (case noise_magnitude_avg (fst (magphase D)) ! f of
                Num v \<Rightarrow> Num (max 0 (cmod (D ! f ! t) - 1.5 * v))
              | NaN \<Rightarrow> NaN)"
    by (simp add: np_maximum_def np_sub_def np_scale_def mult.commute split: np.splits)
  have b: "spectral_subtraction D ! f ! t
           = (case clean_magnitude (fst (magphase D)) (noise_magnitude_avg (fst (magphase D))) ! f ! t of
                Num c \<Rightarrow> Num (of_real c * unit_phase (D ! f ! t))
              | NaN \<Rightarrow> NaN)"
    using spectral_subtraction_nth [OF assms] by (simp add: np_cmul_def)
  from a b show ?thesis by (rule conjI)
qed

theorem subtraction_formula_witness:
  "rect frames_mixed 10 \<and> (0::nat) < length frames_mixed \<and> (2::nat) < 10
   \<and> clean_magnitude (fst (magphase frames_mixed)) (noise_magnitude_avg (fst (magphase frames_mixed))) ! 0 ! 2
       = Num (1 / 2)
   \<and> spectral_subtraction frames_mixed ! 0 ! 2 = Num (of_real (1 / 2) * \<i>)"
proof -
  have h: "(0::nat) < length frames_mixed" "(2::nat) < 10" by (simp_all add: frames_mixed_def)
  show ?thesis
    using subtraction_formula [OF frames_mixed_rect h] h frames_mixed_rect
    by (simp add: frames_mixed_avg frames_mixed_entry unit_phase_2i norm_mult)
qed

subsection \<open>C3: the noise profile\<close>

text \<open>
  Claim C3, as the code has it. For a spectrogram of at least ten frames, the noise profile
  is, per bin, the mean magnitude of the first \<open>k = frameCount div 10\<close> frames (the product
  with 0.1 is truncated, not rounded up, and there is no lower bound of one frame); it has
  one value per bin and each is non-negative.
\<close>

theorem noise_profile_floor:
  assumes "rect D n" "10 \<le> n" "n < 2 ^ 54" "f < length D"
  shows "length (noise_magnitude_avg (fst (magphase D))) = length D
       \<and> noise_magnitude_avg (fst (magphase D)) ! f
           = Num (sum_list (map cmod (take (n div 10) (D ! f))) / real (n div 10))
       \<and> 0 \<le> sum_list (map cmod (take (n div 10) (D ! f))) / real (n div 10)"
proof -
  have k: "noise_frame_count n = n div 10" using assms by (simp add: noise_frame_count_div10)
  have pos: "0 < n div 10" using assms by simp
  have len: "length (D ! f) = n" using assms by (simp add: rect_nth)
  have ne: "take (n div 10) (D ! f) \<noteq> []" using pos len assms by auto
  have l: "length (take (n div 10) (D ! f)) = n div 10" using len by simp
  have a: "noise_magnitude_avg (fst (magphase D)) ! f
           = Num (sum_list (map cmod (take (n div 10) (D ! f))) / real (n div 10))"
    using noise_magnitude_avg_nth [OF assms(1) assms(4)] ne l by (simp add: k np_mean_def)
  have "0 \<le> sum_list (map cmod (take (n div 10) (D ! f)))"
    by (rule sum_list_nonneg) auto
  then have b: "0 \<le> sum_list (map cmod (take (n div 10) (D ! f))) / real (n div 10)"
    by simp
  show ?thesis using a b by (simp add: length_noise_magnitude_avg magphase_def)
qed

theorem noise_profile_floor_witness:
  "rect frames15 15 \<and> (10::nat) \<le> 15 \<and> (15::nat) < 2 ^ 54 \<and> (0::nat) < length frames15
   \<and> noise_magnitude_avg (fst (magphase frames15)) ! 0 = Num 2"
proof -
  have h: "(10::nat) \<le> 15" "(15::nat) < 2 ^ 54" "(0::nat) < length frames15"
    by (simp_all add: frames15_def)
  show ?thesis
    using noise_profile_floor [OF frames15_rect h] h frames15_rect
    by (simp add: frames15_def)
qed

text \<open>
  Claim C3 as stated fails at fifteen frames: the code averages one frame, the stated
  \<open>max(1, ceil(0.1 * 15))\<close> is two frames, and the profiles differ.
\<close>

theorem noise_profile_ceiling_counterexample:
  "noise_frame_count (shape1 frames15) = 1 \<and> spec_noise_frame_count (shape1 frames15) = 2
   \<and> noise_magnitude_avg (fst (magphase frames15)) ! 0 = Num 2
   \<and> spec_noise_profile frames15 ! 0 = 3
   \<and> noise_magnitude_avg (fst (magphase frames15)) ! 0 \<noteq> Num (spec_noise_profile frames15 ! 0)"
proof -
  have k: "noise_frame_count 15 = 1"
    by (simp add: noise_frame_count_def float_0_1_def)
  have k': "spec_noise_frame_count 15 = 2"
    by (simp add: spec_noise_frame_count_def)
  have len: "(0::nat) < length frames15" by (simp add: frames15_def)
  have a: "noise_magnitude_avg (fst (magphase frames15)) ! 0 = Num 2"
    using noise_magnitude_avg_nth [OF frames15_rect len]
    by (simp add: k frames15_row np_mean_def)
  have b: "spec_noise_profile frames15 ! 0 = 3"
    using len by (simp add: spec_noise_profile_def frames15_shape1 k' frames15_row)
  show ?thesis using k k' a b by (simp add: frames15_shape1)
qed

subsection \<open>C4: the length of the output\<close>

text \<open>
  Claim C4, as the code has it. On the success path the samples handed to the encoder are
  the inverse transform's result as it is: nothing truncates or pads them to the length
  of the decoded signal.
\<close>

theorem output_not_truncated:
  assumes "fs w input = Some content"
    and "load_audio E content 16000 = Inr y"
    and "stft E y 1024 256 = Inr D"
    and "istft E (spectral_subtraction D) 256 = Inr y_clean"
    and "sf_encode E y_clean 16000 = Inr enc"
  shows "fst (ai_denoising_process E input w) = Inr (clean_filepath E w)
       \<and> fs (snd (ai_denoising_process E input w)) (clean_filepath E w) = Some enc"
proof -
  have s: "denoise_samples E content = Inr y_clean"
    using assms(2,3,4) by (simp add: denoise_samples_def)
  show ?thesis
    using process_success(1,2) [OF assms(1) s assms(5)] by simp
qed

theorem output_not_truncated_witness:
  "fs (demo_world clip2560) ''uploads/in.wav'' = Some clip2560
   \<and> load_audio demo_env clip2560 16000 = Inr (replicate 2560 0)
   \<and> stft demo_env (replicate 2560 0) 1024 256 = Inr (replicate 513 (replicate 11 1))
   \<and> istft demo_env (spectral_subtraction (replicate 513 (replicate 11 1))) 256
       = Inr (replicate 2560 (Num 0))
   \<and> sf_encode demo_env (replicate 2560 (Num 0)) 16000 = Inr (replicate 5120 (CHR 0x00))
   \<and> fst (ai_denoising_process demo_env ''uploads/in.wav'' (demo_world clip2560))
       = Inr ''uploads/denoised_id+_clean.wav''
   \<and> fs (snd (ai_denoising_process demo_env ''uploads/in.wav'' (demo_world clip2560)))
       ''uploads/denoised_id+_clean.wav'' = Some (replicate 5120 (CHR 0x00))"
  using output_not_truncated [OF demo_world_file demo_load_clip2560 demo_stft_2560 demo_istft_11
      demo_encode_2560]
  by (simp add: demo_clean_filepath demo_world_file demo_load_clip2560 demo_stft_2560 demo_istft_11
      demo_encode_2560)

text \<open>
  Claim C4 as stated fails for a clip of 3000 samples: twelve frames come back as
  \<open>256 * 11 = 2816\<close> samples, and those are what is encoded.
\<close>

theorem truncation_counterexample:
  "load_audio demo_env clip3000 16000 = Inr (replicate 3000 0)
   \<and> fst (ai_denoising_process demo_env ''uploads/in.wav'' (demo_world clip3000))
       = Inr ''uploads/denoised_id+_clean.wav''
   \<and> fs (snd (ai_denoising_process demo_env ''uploads/in.wav'' (demo_world clip3000)))
       ''uploads/denoised_id+_clean.wav''
       = Some (replicate 5632 (CHR 0x00))
   \<and> sf_encode demo_env (replicate 2816 (Num 0)) 16000 = Inr (replicate 5632 (CHR 0x00))
   \<and> length (replicate 2816 (Num (0::real))) \<noteq> length (replicate 3000 (0::real))"
  using process_success(1,2) [OF demo_world_file demo_samples_3000 demo_encode_2816]
  by (simp add: demo_clean_filepath demo_load_clip3000 demo_encode_2816)

subsection \<open>C5 and C6: clips of fewer than ten frames\<close>

text \<open>
  Claim C5 at a clip shorter than one frame. Its spectrogram has one frame;
  \<^verbatim>\<open>int(1 * 0.1)\<close> is \<open>0\<close>, the noise slice is empty, its mean is \<^verbatim>\<open>nan\<close>, and every
  bin handed to the inverse transform is \<^verbatim>\<open>nan\<close>.
\<close>

theorem short_clip_all_nan:
  "spectral_subtraction frames1 = replicate 513 [NaN]"
proof (rule nth_equalityI)
  show "length (spectral_subtraction frames1) = length (replicate 513 [NaN :: complex np])"
    by (simp add: length_spectral_subtraction frames1_def)
next
  fix f assume "f < length (spectral_subtraction frames1)"
  then have f: "f < length frames1" by (simp add: length_spectral_subtraction)
  then have f': "f < 513" by (simp add: frames1_def)
  have len: "length (spectral_subtraction frames1 ! f) = 1"
    using f by (simp add: length_spectral_subtraction_row frames1_def)
  have "spectral_subtraction frames1 ! f = [NaN]"
  proof (rule nth_equalityI)
    show "length (spectral_subtraction frames1 ! f) = length [NaN :: complex np]"
      using len by simp
  next
    fix t assume "t < length (spectral_subtraction frames1 ! f)"
    then have t: "t < 1" using len by simp
    have "(1::nat) < 10" by simp
    from short_spectrum_nan [OF frames1_rect this f t] t
    show "spectral_subtraction frames1 ! f ! t = [NaN] ! t" by simp
  qed
  then show "spectral_subtraction frames1 ! f = replicate 513 [NaN] ! f"
    using f' by simp
qed

text \<open>
  Claim C6 at a spectrogram of eight frames: the subtracted magnitude is \<^verbatim>\<open>nan\<close>, which
  is not greater than or equal to zero.
\<close>

theorem short_clip_magnitude_not_nonneg:
  "clean_magnitude (fst (magphase frames8)) (noise_magnitude_avg (fst (magphase frames8))) ! 0 ! 0 = NaN
   \<and> \<not> np_nonneg (clean_magnitude (fst (magphase frames8)) (noise_magnitude_avg (fst (magphase frames8))) ! 0 ! 0)"
proof -
  have h: "(8::nat) < 10" "(0::nat) < length frames8" "(0::nat) < 8" by (simp_all add: frames8_def)
  have "clean_magnitude (fst (magphase frames8)) (noise_magnitude_avg (fst (magphase frames8))) ! 0 ! 0 = NaN"
    using short_clean_nan [OF frames8_rect h] .
  then show ?thesis by (simp add: np_nonneg_def)
qed

subsection \<open>C7: the phase\<close>

text \<open>
  Claim C7, as the code has it. Wherever the subtracted magnitude is positive, the phase of
  the cleaned bin is the phase of the original bin.
\<close>

theorem phase_kept_where_positive:
  assumes "rect D n" "f < length D" "t < n"
    "clean_magnitude (fst (magphase D)) (noise_magnitude_avg (fst (magphase D))) ! f ! t = Num c"
    "0 < c"
  shows "map_np unit_phase (spectral_subtraction D ! f ! t) = Num (unit_phase (D ! f ! t))"
  using spectral_subtraction_nth [OF assms(1,2,3)] assms(4,5)
  by (simp add: np_cmul_def unit_phase_scale)

theorem phase_kept_where_positive_witness:
  "rect frames_mixed 10 \<and> (0::nat) < length frames_mixed \<and> (2::nat) < 10
   \<and> clean_magnitude (fst (magphase frames_mixed)) (noise_magnitude_avg (fst (magphase frames_mixed))) ! 0 ! 2
       = Num (1 / 2)
   \<and> (0::real) < 1 / 2
   \<and> map_np unit_phase (spectral_subtraction frames_mixed ! 0 ! 2) = Num \<i>"
proof -
  have h: "(0::nat) < length frames_mixed" "(2::nat) < 10" by (simp_all add: frames_mixed_def)
  have p: "(0::real) < 1 / 2" by simp
  show ?thesis
    using phase_kept_where_positive [OF frames_mixed_rect h frames_mixed_clean p] h frames_mixed_rect
      frames_mixed_clean
    by (simp add: frames_mixed_entry unit_phase_2i)
qed

text \<open>
  Claim C7 as stated ("for every frame and every frequency bin") fails where the magnitude
  is clamped to zero: the cleaned bin is \<open>0\<close>, whose phase factor is \<open>1\<close>, whatever the
  phase of the original bin.
\<close>

theorem clamped_bin_phase_counterexample:
  "spectral_subtraction frames10 ! 0 ! 0 = Num 0
   \<and> unit_phase (frames10 ! 0 ! 0) = \<i>
   \<and> map_np unit_phase (spectral_subtraction frames10 ! 0 ! 0) \<noteq> Num (unit_phase (frames10 ! 0 ! 0))"
proof -
  have h: "(0::nat) < length frames10" "(0::nat) < 10" by (simp_all add: frames10_def)
  have a: "spectral_subtraction frames10 ! 0 ! 0 = Num 0"
    using spectral_subtraction_nth [OF frames10_rect h] by (simp add: frames10_clean np_cmul_def)
  have b: "unit_phase (frames10 ! 0 ! 0) = \<i>" by (simp add: frames10_def unit_phase_def)
  have c: "unit_phase 0 = 1" by (simp add: unit_phase_def)
  have "(1::complex) \<noteq> \<i>" by (simp add: complex_eq_iff)
  then show ?thesis using a b c by simp
qed

subsection \<open>C8: a zero noise profile\<close>

text \<open>
  Claim C8, as the code has it. If the noise profile is zero in every bin, the subtracted
  magnitude is the original magnitude in every bin and frame, and the cleaned spectrogram is
  the product of the original magnitude and the original phase factor. (Subtracting
  \<open>0 * 1.5\<close> and clamping a magnitude at zero change nothing, in float32 as in exact
  arithmetic: \<open>clean_f32_zero_noise\<close>.)
\<close>

theorem zero_noise_keeps_magnitude:
  assumes "noise_magnitude_avg (fst (magphase D)) = replicate (length D) (Num 0)"
  shows "clean_magnitude (fst (magphase D)) (noise_magnitude_avg (fst (magphase D)))
           = map (map Num) (fst (magphase D))
       \<and> spectral_subtraction D
           = stft_clean (map (map Num) (fst (magphase D))) (snd (magphase D))"
proof -
  have a: "clean_magnitude (fst (magphase D)) (noise_magnitude_avg (fst (magphase D)))
           = map (map Num) (fst (magphase D))"
  proof -
    have m: "fst (magphase D) = map (map cmod) D" by (simp add: magphase_def)
    have "clean_magnitude (fst (magphase D)) (noise_magnitude_avg (fst (magphase D)))
            = clean_magnitude (fst (magphase D)) (replicate (length D) (Num 0))"
      by (simp only: assms)
    also have "\<dots> = clean_magnitude (map (map cmod) D) (replicate (length D) (Num 0))"
      by (simp only: m)
    also have "\<dots> = map (map Num) (map (map cmod) D)"
      by (rule clean_magnitude_zero_noise)
    also have "\<dots> = map (map Num) (fst (magphase D))"
      by (simp only: m)
    finally show ?thesis .
  qed
  then have "spectral_subtraction D
           = stft_clean (map (map Num) (fst (magphase D))) (snd (magphase D))"
    by (simp add: spectral_subtraction_def Let_def split_beta)
  with a show ?thesis by simp
qed

theorem zero_noise_keeps_magnitude_witness:
  "noise_magnitude_avg (fst (magphase frames_quiet)) = replicate (length frames_quiet) (Num 0)
   \<and> clean_magnitude (fst (magphase frames_quiet)) (noise_magnitude_avg (fst (magphase frames_quiet)))
       = replicate 513 (Num 0 # replicate 9 (Num 2))"
  using zero_noise_keeps_magnitude [OF frames_quiet_avg] frames_quiet_avg
  by (simp add: frames_quiet_def magphase_def norm_mult)

text \<open>
  Claim C8 as stated ("equals the original spectrum exactly") fails in the arrays' float32
  arithmetic: at the bin \<open>1 + 1j\<close> the magnitude is \<open>11863283 / 2^23\<close>, each part of the
  phase factor is \<open>11863283 / 2^24\<close>, and their product rounds to
  \<open>16777215 / 2^24 = 0.99999994\<close>, not \<open>1\<close>. (In exact arithmetic the product is the
  original bin: \<open>zero_noise_general\<close>.)
\<close>

theorem zero_noise_float32_counterexample:
  "subtract_bin_f32 (Complex 1 1) 0 = Complex (16777215 / 16777216) (16777215 / 16777216)
   \<and> subtract_bin_f32 (Complex 1 1) 0 \<noteq> Complex 1 1"
  by (simp add: subtract_bin_f32_def magphase_f32_1_1 clean_f32_def cmul_f32_def f32_zero f32_mag
      f32_product f32_result)

subsection \<open>C9: the sample rate\<close>

text \<open>
  Claim C9. Whenever \<^verbatim>\<open>ai_denoising_process\<close> returns without having reported a
  failure, the input was decoded at 16000 Hz and the file at the returned path is the
  encoding, at 16000 Hz, of the inverse transform's samples.
\<close>

theorem processed_at_16k:
  assumes "ai_denoising_process E input w = (Inr out, w')" and "flashes w' = flashes w"
  shows "\<exists>content y D y_clean enc.
           fs w input = Some content \<and> load_audio E content 16000 = Inr y
         \<and> stft E y N_FFT HOP_LENGTH = Inr D
         \<and> istft E (spectral_subtraction D) HOP_LENGTH = Inr y_clean
         \<and> sf_encode E y_clean 16000 = Inr enc \<and> fs w' out = Some enc"
proof -
  obtain r w3 where d: "denoise_try E input (fallback_filepath E input w) (entered input w) = (r, w3)"
    by (cases "denoise_try E input (fallback_filepath E input w) (entered input w)")
  have fl: "flashes w3 = flashes w"
    using flashes_denoise_try [of E input "fallback_filepath E input w" "entered input w"] d
    by (simp add: entered_simps)
  show ?thesis
  proof (cases r)
    case (Inl ep)
    obtain e p where ep: "ep = (e, p)" by (cases ep)
    have "flashes w' \<noteq> flashes w"
      using assms(1) d Inl ep fl
      by (auto simp: ai_denoising_process_alt shutil_copy_def failed_simps
          split: sum.split_asm option.split_asm if_split_asm)
    then show ?thesis using assms(2) by simp
  next
    case (Inr path)
    then have "path = out" "w3 = w'"
      using assms(1) d by (simp_all add: ai_denoising_process_alt)
    then have "denoise_try E input (fallback_filepath E input w) (entered input w) = (Inr out, w')"
      using d Inr by simp
    from denoise_try_Inr [OF this] show ?thesis by (simp add: entered_simps)
  qed
qed

theorem processed_at_16k_witness:
  "ai_denoising_process demo_env ''uploads/in.wav'' (demo_world clip2560)
     = (Inr ''uploads/denoised_id+_clean.wav'',
        snd (ai_denoising_process demo_env ''uploads/in.wav'' (demo_world clip2560)))
   \<and> flashes (snd (ai_denoising_process demo_env ''uploads/in.wav'' (demo_world clip2560)))
       = flashes (demo_world clip2560)
   \<and> fs (snd (ai_denoising_process demo_env ''uploads/in.wav'' (demo_world clip2560)))
       ''uploads/denoised_id+_clean.wav'' \<noteq> None"
proof -
  let ?run = "ai_denoising_process demo_env ''uploads/in.wav'' (demo_world clip2560)"
  have "fst ?run = Inr ''uploads/denoised_id+_clean.wav''"
    using process_success(1) [OF demo_world_file demo_samples_2560 demo_encode_2560]
    by (simp add: demo_clean_filepath)
  then have a: "?run = (Inr ''uploads/denoised_id+_clean.wav'', snd ?run)"
    by (simp add: prod_eq_iff)
  have b: "flashes (snd ?run) = flashes (demo_world clip2560)"
    using process_success(3) [OF demo_world_file demo_samples_2560 demo_encode_2560] .
  from processed_at_16k [OF a b]
  have "fs (snd ?run) ''uploads/denoised_id+_clean.wav'' \<noteq> None" by auto
  with a b show ?thesis by simp
qed

subsection \<open>C10: the upload gate\<close>



end
